theory Spec2Isabelle
  imports Complex_Main "HOL-Library.Word"
begin

section \<open>Data model of \<open>raster_threshold_chunked.py\<close>\<close>

text \<open>
  The script reads one band of a raster block by block, guesses the scale of the stored
  values from the first block, and writes a \<open>uint8\<close> mask. The raster library is a
  collaborator: what the script asks of it (block enumeration, windowed reads, windowed
  writes, the profile) is modelled here as data that the script's functions work on.

  Pixel values and thresholds are Python floats in the source. They are modelled as
  \<^typ>\<open>real\<close>: the script only compares them and multiplies a threshold by one of the
  constants 1, 100 and 10000. Python's unbounded \<open>int\<close> is \<^typ>\<open>int\<close>, and \<open>//\<close> with
  a positive divisor is \<open>div\<close>. A \<open>numpy.uint8\<close> cell is an \<^typ>\<open>8 word\<close>.
\<close>

type_synonym uint8 = "8 word"

text \<open>
  When numpy compares an array with a Python float, the float is first converted to the
  dtype the comparison is made in: unchanged against a \<open>float64\<close> or an integer band,
  rounded to the nearest \<open>float32\<close> against a \<open>float32\<close> band. Which conversion
  it is depends on the band; all that is fixed here is that it never reverses the order
  of two numbers. \<open>exact\<close> is the conversion that changes nothing.
\<close>

typedef rounding = "{f :: real \<Rightarrow> real. mono f}"
  morphisms convert Rounding
  by (rule exI [of _ "\<lambda>x. x"]) (simp add: mono_def)

setup_lifting type_definition_rounding

lift_definition exact :: rounding is "\<lambda>x. x"
  by (simp add: mono_def)

text \<open>\<open>rasterio.windows.Window(col_off, row_off, width, height)\<close>.\<close>

record window =
  col_off :: int
  row_off :: int
  width :: int
  height :: int

text \<open>
  An affine transform \<open>Affine(a, b, c, d, e, f)\<close>, the matrix with rows \<open>a b c\<close>,
  \<open>d e f\<close> and \<open>0 0 1\<close>; \<open>affine_mul\<close> is its \<open>*\<close> and \<open>affine_scale\<close> is
  \<open>Affine.scale(sx, sy)\<close>.
\<close>

datatype affine = Affine real real real real real real

fun affine_mul :: "affine \<Rightarrow> affine \<Rightarrow> affine" where
  "affine_mul (Affine sa sb sc sd se sf) (Affine oa ob oc od oe of') =
     Affine (sa * oa + sb * od) (sa * ob + sb * oe) (sa * oc + sb * of' + sc)
            (sd * oa + se * od) (sd * ob + se * oe) (sd * oc + se * of' + sf)"

definition affine_scale :: "real \<Rightarrow> real \<Rightarrow> affine" where
  "affine_scale sx sy = Affine sx 0 0 0 sy 0"

text \<open>The keys of a raster profile that the script reads or updates.\<close>

record profile =
  prof_height :: int
  prof_width :: int
  prof_transform :: affine
  prof_dtype :: string
  prof_count :: int
  prof_nodata :: "real option"
  prof_tiled :: bool
  prof_compress :: "string option"
  prof_blockxsize :: "int option"
  prof_blockysize :: "int option"

text \<open>
  A raster opened for reading. \<open>block_windows\<close> is the enumeration \<open>src.block_windows(1)\<close>,
  \<open>stored row col\<close> the value stored in band 1, \<open>invalid row col\<close> the per-pixel mask
  of a masked read (\<open>True\<close> where the pixel is no-data, as in a numpy masked array), and
  \<open>nearest n m i\<close> the offset of the source sample that nearest-neighbour resampling of
  \<open>n\<close> samples to \<open>m\<close> picks for output index \<open>i\<close> (the library's choice, left open),
  and \<open>as_dtype\<close> the conversion of a Python float that is compared with an array read
  from the band.
\<close>

record dataset =
  src_profile :: profile
  block_windows :: "window list"
  stored :: "int \<Rightarrow> int \<Rightarrow> real"
  invalid :: "int \<Rightarrow> int \<Rightarrow> bool"
  nearest :: "int \<Rightarrow> int \<Rightarrow> int \<Rightarrow> int"
  as_dtype :: rounding

text \<open>\<open>src.read(1, window=w)\<close>: the stored values of the window, row by row.\<close>

definition read_window :: "dataset \<Rightarrow> window \<Rightarrow> real list list" where
  "read_window src w =
     map (\<lambda>i. map (\<lambda>j. stored src (row_off w + i) (col_off w + j)) [0..width w - 1])
         [0..height w - 1]"

text \<open>\<open>src.read(1, window=w, masked=True)\<close>: each value with its mask flag.\<close>

definition read_masked :: "dataset \<Rightarrow> window \<Rightarrow> (real \<times> bool) list list" where
  "read_masked src w =
     map (\<lambda>i. map (\<lambda>j. (stored src (row_off w + i) (col_off w + j),
                          invalid src (row_off w + i) (col_off w + j))) [0..width w - 1])
         [0..height w - 1]"

text \<open>
  \<open>src.read(1, window=w, out_shape=(oh, ow), resampling=nearest)\<close>: an array of
  \<open>oh\<close> rows and \<open>ow\<close> columns, each cell one stored value of the window.
\<close>

definition read_out_shape :: "dataset \<Rightarrow> window \<Rightarrow> int \<Rightarrow> int \<Rightarrow> real list list" where
  "read_out_shape src w oh ow =
     map (\<lambda>i. map (\<lambda>j. stored src (row_off w + nearest src (height w) oh i)
                                  (col_off w + nearest src (width w) ow j)) [0..ow - 1])
         [0..oh - 1]"

text \<open>\<open>arr.compressed()\<close>: the unmasked values of a masked array, flattened.\<close>

definition compressed :: "(real \<times> bool) list list \<Rightarrow> real list" where
  "compressed arr = map fst (filter (\<lambda>p. \<not> snd p) (concat arr))"

text \<open>
  \<open>numpy.nanpercentile(valid, q)\<close> with the default linear interpolation: on the sorted
  values the virtual index is \<open>(n - 1) * q / 100\<close>, and the result interpolates between
  its two neighbours. The script calls it only on a non-empty array.
\<close>

definition nanpercentile :: "real list \<Rightarrow> real \<Rightarrow> real" where
  "nanpercentile xs q =
     (let s = sort xs;
          n = length s;
          vi = real (n - 1) * (q / 100);
          lo = nat \<lfloor>vi\<rfloor>;
          hi = min (lo + 1) (n - 1);
          g = vi - real lo
      in s ! lo + (s ! hi - s ! lo) * g)"

text \<open>\<open>mask.shape[0]\<close> and \<open>mask.shape[1]\<close> of a two-dimensional array with at least one row.\<close>

definition shape0 :: "'a list list \<Rightarrow> int" where
  "shape0 m = int (length m)"

definition shape1 :: "'a list list \<Rightarrow> int" where
  "shape1 m = (case m of [] \<Rightarrow> 0 | r # _ \<Rightarrow> int (length r))"

section \<open>\<open>infer_threshold_value\<close>\<close>

datatype error = RuntimeError string | SystemExit int | RasterBlockError string

definition infer_threshold_value :: "dataset \<Rightarrow> real \<Rightarrow> error + (real \<times> real \<times> real)" where
  "infer_threshold_value src threshold =
     (case block_windows src of
        [] \<Rightarrow> Inl (RuntimeError ''No windows found in the raster.'')
      | first_window # _ \<Rightarrow>
          (let arr = read_masked src first_window;
               valid = compressed arr;
               data_max = (if length valid = 0 then 1.0 else nanpercentile valid 99.9);
               scale = (if data_max \<le> 1.0 then 1.0
                        else if data_max \<le> 110.0 then 100.0
                        else if data_max \<le> 11000.0 then 10000.0
                        else 1.0);
               thr_native = threshold * scale
           in Inr (thr_native, scale, data_max)))"

section \<open>\<open>main\<close>\<close>

text \<open>
  \<open>(data >= thr_native).astype(np.uint8)\<close>, element by element, for an array \<open>data\<close>
  whose dtype converts the float \<open>thr_native\<close> by \<open>r\<close>.
\<close>

definition ge_mask :: "rounding \<Rightarrow> real list list \<Rightarrow> real \<Rightarrow> uint8 list list" where
  "ge_mask r data thr_native =
     map (map (\<lambda>v. if v \<ge> convert r thr_native then 1 else 0)) data"

text \<open>
  A raster opened for writing: the profile it was created with and the windowed writes
  \<open>dst.write(mask, 1, window=...)\<close> it received, in order.
\<close>

record dst_raster =
  dst_profile :: profile
  dst_writes :: "(window \<times> uint8 list list) list"

text \<open>
  \<open>rasterio.open(out_path, "w", **profile)\<close>. With \<open>tiled\<close> set, the library refuses
  a \<open>blockxsize\<close> or \<open>blockysize\<close> that is given, not zero and not a multiple of
  16, and raises \<open>RasterBlockError\<close> while it checks the options, before it creates
  the file; otherwise the raster is created with no write yet.
\<close>

definition bad_block_size :: "int option \<Rightarrow> bool" where
  "bad_block_size b = (case b of None \<Rightarrow> False | Some n \<Rightarrow> n \<noteq> 0 \<and> n mod 16 \<noteq> 0)"

definition open_write :: "profile \<Rightarrow> error + dst_raster" where
  "open_write profile =
     (if prof_tiled profile \<and>
         (bad_block_size (prof_blockxsize profile) \<or> bad_block_size (prof_blockysize profile))
      then Inl (RasterBlockError
                  ''The height and width of TIFF dataset blocks must be multiples of 16'')
      else Inr \<lparr>dst_profile = profile, dst_writes = []\<rparr>)"

definition dst_write :: "dst_raster \<Rightarrow> uint8 list list \<Rightarrow> window \<Rightarrow> dst_raster" where
  "dst_write dst msk w = dst\<lparr>dst_writes := dst_writes dst @ [(w, msk)]\<rparr>"

text \<open>
  One pass of the body of the loop over \<open>src.block_windows(1)\<close>: \<open>None\<close> is the
  \<open>continue\<close>, otherwise the window written and the mask written there.
\<close>

definition process_block ::
  "dataset \<Rightarrow> int \<Rightarrow> real \<Rightarrow> window \<Rightarrow> (window \<times> uint8 list list) option" where
  "process_block src overview thr_native w =
     (if overview \<noteq> 0 \<and> overview > 1 then
        (let oh = height w div overview;
             ow = width w div overview
         in if oh \<le> 0 \<or> ow \<le> 0 then None
            else (let data = read_out_shape src w oh ow;
                      msk = ge_mask (as_dtype src) data thr_native;
                      dst_window = \<lparr>col_off = col_off w div overview,
                                    row_off = row_off w div overview,
                                    width = shape1 msk,
                                    height = shape0 msk\<rparr>
                  in Some (dst_window, msk)))
      else (let data = read_window src w;
                msk = ge_mask (as_dtype src) data thr_native
            in Some (w, msk)))"

fun write_blocks :: "dataset \<Rightarrow> int \<Rightarrow> real \<Rightarrow> window list \<Rightarrow> dst_raster \<Rightarrow> dst_raster" where
  "write_blocks src overview thr_native [] dst = dst"
| "write_blocks src overview thr_native (w # ws) dst =
     (case process_block src overview thr_native w of
        None \<Rightarrow> write_blocks src overview thr_native ws dst
      | Some (dst_window, msk) \<Rightarrow>
          write_blocks src overview thr_native ws (dst_write dst msk dst_window))"

text \<open>
  The profile of the output: a copy of the source's, block sizes included, forced to one
  tiled, compressed \<open>uint8\<close> band, and shrunk when downsampling.
\<close>

definition out_profile :: "dataset \<Rightarrow> int \<Rightarrow> profile" where
  "out_profile src overview =
     (let profile = (src_profile src)\<lparr>prof_dtype := ''uint8'', prof_count := 1,
                                      prof_nodata := Some 0, prof_tiled := True,
                                      prof_compress := Some ''LZW''\<rparr>
      in if overview \<noteq> 0 \<and> overview > 1 then
           profile\<lparr>prof_height := max 1 (prof_height (src_profile src) div overview),
                   prof_width := max 1 (prof_width (src_profile src) div overview),
                   prof_transform :=
                     affine_mul (prof_transform (src_profile src))
                                (affine_scale (real_of_int overview) (real_of_int overview))\<rparr>
         else profile)"

text \<open>
  The command line after parsing, and the files the run sees: the rasters that exist for
  reading, by path, and the rasters created for writing, by path. \<open>sys.exit(2)\<close>, the
  \<open>RuntimeError\<close> of the estimate and the library's refusal to open the output are
  results of \<open>main\<close>; the two messages it prints are left out.
\<close>

record args =
  tif :: string
  out :: string
  threshold :: real
  overview :: int

record world =
  readable :: "string \<rightharpoonup> dataset"
  written :: "string \<rightharpoonup> dst_raster"

definition main :: "world \<Rightarrow> args \<Rightarrow> (error + unit) \<times> world" where
  "main wld a =
     (case readable wld (tif a) of
        None \<Rightarrow> (Inl (SystemExit 2), wld)
      | Some src \<Rightarrow>
          (case infer_threshold_value src (threshold a) of
             Inl e \<Rightarrow> (Inl e, wld)
           | Inr (thr_native, scale, data_max) \<Rightarrow>
               (case open_write (out_profile src (overview a)) of
                  Inl e \<Rightarrow> (Inl e, wld)
                | Inr dst0 \<Rightarrow>
                    (let dst = write_blocks src (overview a) thr_native (block_windows src) dst0
                     in (Inr (), wld\<lparr>written := (written wld)(out a \<mapsto> dst)\<rparr>)))))"

section \<open>Observations and test rasters\<close>

text \<open>The raster that a run left at its output path, and the 1-valued cells of a mask.\<close>

definition run_output :: "world \<Rightarrow> args \<Rightarrow> dst_raster option" where
  "run_output wld a = written (snd (main wld a)) (out a)"

definition count_ones :: "uint8 list list \<Rightarrow> nat" where
  "count_ones m = length (filter (\<lambda>c. c = 1) (concat m))"

definition total_ones :: "dst_raster \<Rightarrow> nat" where
  "total_ones dst = sum_list (map (\<lambda>wm. count_ones (snd wm)) (dst_writes dst))"

text \<open>One mask is cell by cell at most another of the same shape.\<close>

definition mask_le :: "uint8 list list \<Rightarrow> uint8 list list \<Rightarrow> bool" where
  "mask_le m2 m1 = list_all2 (list_all2 (\<lambda>c2 c1. c2 \<le> c1)) m2 m1"

text \<open>
  The cells of a window, and what it is for a list of windows to tile a grid of \<open>H\<close>
  rows and \<open>W\<close> columns exactly: no window is empty, no cell is covered twice, and the
  cells covered are those of the grid.
\<close>

definition cells :: "window \<Rightarrow> (int \<times> int) list" where
  "cells w = concat (map (\<lambda>r. map (\<lambda>c. (r, c)) [col_off w..col_off w + width w - 1])
                         [row_off w..row_off w + height w - 1])"


text \<open>
  Test rasters, all \<open>float64\<close>. \<open>nodata_src\<close> holds the given rows, with the listed
  pixels flagged as no-data, in a file tiled in blocks of 16 by 16 that enumerates the
  given windows; \<open>grid_src\<close> is the case of no flagged pixel and rows that fit in one
  block. \<open>striped\<close> turns a raster into one stored in strips of the given number of
  rows, as wide as the raster.
\<close>

definition plain_profile :: "int \<Rightarrow> int \<Rightarrow> profile" where
  "plain_profile h w =
     \<lparr>prof_height = h, prof_width = w, prof_transform = Affine 1 0 0 0 (- 1) 0,
      prof_dtype = ''float64'', prof_count = 1, prof_nodata = None, prof_tiled = True,
      prof_compress = None, prof_blockxsize = Some 16, prof_blockysize = Some 16\<rparr>"

definition cell_at :: "real list list \<Rightarrow> int \<Rightarrow> int \<Rightarrow> real" where
  "cell_at rows r c =
     (if 0 \<le> r \<and> nat r < length rows \<and> 0 \<le> c \<and> nat c < length (rows ! nat r)
      then rows ! nat r ! nat c else 0)"

definition nodata_src :: "real list list \<Rightarrow> (int \<times> int) list \<Rightarrow> window list \<Rightarrow> dataset" where
  "nodata_src rows holes blocks =
     \<lparr>src_profile = plain_profile (shape0 rows) (shape1 rows),
      block_windows = blocks,
      stored = cell_at rows,
      invalid = (\<lambda>r c. (r, c) \<in> set holes),
      nearest = (\<lambda>n m i. (i * n) div m),
      as_dtype = exact\<rparr>"


definition grid_src :: "real list list \<Rightarrow> dataset" where
  "grid_src rows =
     nodata_src rows []
       [\<lparr>col_off = 0, row_off = 0, width = shape1 rows, height = shape0 rows\<rparr>]"

definition example_rows :: "real list list" where
  "example_rows = [[0, 20, 40, 60], [80, 100, 0, 20], [40, 60, 80, 100], [0, 0, 0, 0]]"


definition one_file :: "dataset \<Rightarrow> world" where
  "one_file src = \<lparr>readable = [''input.tif'' \<mapsto> src], written = Map.empty\<rparr>"

definition cli :: "real \<Rightarrow> int \<Rightarrow> args" where
  "cli thr ov = \<lparr>tif = ''input.tif'', out = ''mask_40.tif'', threshold = thr, overview = ov\<rparr>"

section \<open>The loop and the run as a whole\<close>

lemma write_blocks_profile:
  "dst_profile (write_blocks src ov thr ws dst) = dst_profile dst"
  by (induction ws arbitrary: dst) (auto simp: dst_write_def split: option.splits)

lemma write_blocks_writes:
  "dst_writes (write_blocks src ov thr ws dst) =
     dst_writes dst @ List.map_filter (process_block src ov thr) ws"
  by (induction ws arbitrary: dst)
     (auto simp: dst_write_def split: option.splits)

lemma write_blocks_eq:
  "write_blocks src ov thr ws \<lparr>dst_profile = p, dst_writes = []\<rparr> =
     \<lparr>dst_profile = p, dst_writes = List.map_filter (process_block src ov thr) ws\<rparr>"
  using write_blocks_profile [of src ov thr ws "\<lparr>dst_profile = p, dst_writes = []\<rparr>"]
        write_blocks_writes [of src ov thr ws "\<lparr>dst_profile = p, dst_writes = []\<rparr>"]
  by (cases "write_blocks src ov thr ws \<lparr>dst_profile = p, dst_writes = []\<rparr>") simp

lemma out_profile_blocks:
  "prof_tiled (out_profile src ov)"
  "prof_blockxsize (out_profile src ov) = prof_blockxsize (src_profile src)"
  "prof_blockysize (out_profile src ov) = prof_blockysize (src_profile src)"
  by (simp_all add: out_profile_def Let_def)

lemma open_write_ok:
  assumes "\<not> bad_block_size (prof_blockxsize (src_profile src))"
    and "\<not> bad_block_size (prof_blockysize (src_profile src))"
  shows "open_write (out_profile src ov) =
           Inr \<lparr>dst_profile = out_profile src ov, dst_writes = []\<rparr>"
  using assms by (simp add: open_write_def out_profile_blocks)

lemma open_write_refused:
  assumes "bad_block_size (prof_blockxsize (src_profile src)) \<or>
           bad_block_size (prof_blockysize (src_profile src))"
  shows "open_write (out_profile src ov) =
           Inl (RasterBlockError
                  ''The height and width of TIFF dataset blocks must be multiples of 16'')"
  using assms by (simp add: open_write_def out_profile_blocks)

lemma main_run:
  assumes "readable wld (tif a) = Some src"
    and "infer_threshold_value src (threshold a) = Inr (thr, s, m)"
    and "\<not> bad_block_size (prof_blockxsize (src_profile src))"
    and "\<not> bad_block_size (prof_blockysize (src_profile src))"
  shows "main wld a =
           (Inr (), wld\<lparr>written := (written wld)(out a \<mapsto>
              \<lparr>dst_profile = out_profile src (overview a),
               dst_writes = List.map_filter (process_block src (overview a) thr)
                              (block_windows src)\<rparr>)\<rparr>)"
  using assms(1,2) by (simp add: main_def write_blocks_eq open_write_ok [OF assms(3,4)])

lemma main_refused:
  assumes "readable wld (tif a) = Some src"
    and "infer_threshold_value src (threshold a) = Inr (thr, s, m)"
    and "bad_block_size (prof_blockxsize (src_profile src)) \<or>
         bad_block_size (prof_blockysize (src_profile src))"
  shows "main wld a =
           (Inl (RasterBlockError
                   ''The height and width of TIFF dataset blocks must be multiples of 16''),
            wld)"
  using assms(1,2) by (simp add: main_def open_write_refused [OF assms(3)])

lemma tiled16_opens:
  "\<not> bad_block_size (prof_blockxsize (src_profile (nodata_src rows holes blocks)))"
  "\<not> bad_block_size (prof_blockysize (src_profile (nodata_src rows holes blocks)))"
  "\<not> bad_block_size (prof_blockxsize (src_profile (grid_src rows)))"
  "\<not> bad_block_size (prof_blockysize (src_profile (grid_src rows)))"
  by (simp_all add: grid_src_def nodata_src_def plain_profile_def bad_block_size_def)

lemma convert_exact: "convert exact x = x"
  by (simp add: exact.rep_eq)

lemma as_dtype_example:
  "as_dtype (nodata_src rows holes blocks) = exact"
  "as_dtype (grid_src rows) = exact"
  by (simp_all add: grid_src_def nodata_src_def)

lemma infer_scale:
  assumes "block_windows src \<noteq> []"
  shows "\<exists>s m. 0 < s \<and> (\<forall>t. infer_threshold_value src t = Inr (t * s, s, m))"
proof -
  obtain w ws where "block_windows src = w # ws"
    using assms by (cases "block_windows src") auto
  then show ?thesis
    by (auto simp: infer_threshold_value_def Let_def)
qed

lemma example_infer:
  "infer_threshold_value (grid_src example_rows) t = Inr (t * 100, 100, 100)"
  by (simp add: infer_threshold_value_def grid_src_def nodata_src_def example_rows_def read_masked_def
     compressed_def shape0_def shape1_def upto_rec1 cell_at_def nanpercentile_def Let_def)

lemma example_readable:
  "readable (one_file src) (tif (cli t ov)) = Some src"
  by (simp add: one_file_def cli_def)

lemma example_run:
  "run_output (one_file (grid_src example_rows)) (cli t ov) =
     Some \<lparr>dst_profile = out_profile (grid_src example_rows) ov,
           dst_writes = List.map_filter (process_block (grid_src example_rows) ov (t * 100))
                              (block_windows (grid_src example_rows))\<rparr>"
  unfolding run_output_def
  by (simp add: main_run [OF example_readable example_infer tiled16_opens(3,4)])
     (simp add: cli_def)

lemma example_ok:
  "fst (main (one_file (grid_src example_rows)) (cli t ov)) = Inr ()"
  by (simp add: main_run [OF example_readable example_infer tiled16_opens(3,4)])

lemma example_blocks:
  "block_windows (grid_src example_rows) = [\<lparr>col_off = 0, row_off = 0, width = 4, height = 4\<rparr>]"
  by (simp add: grid_src_def nodata_src_def example_rows_def shape0_def shape1_def)

lemma example_block_full:
  "process_block (grid_src example_rows) 0 40 \<lparr>col_off = 0, row_off = 0, width = 4, height = 4\<rparr> =
     Some (\<lparr>col_off = 0, row_off = 0, width = 4, height = 4\<rparr>,
           [[0, 0, 1, 1], [1, 1, 0, 0], [1, 1, 1, 1], [0, 0, 0, 0]])"
  by (simp add: process_block_def read_window_def ge_mask_def convert_exact grid_src_def
        nodata_src_def example_rows_def cell_at_def upto_rec1)

section \<open>The end-to-end example\<close>


section \<open>Scale estimation\<close>

lemma one_pixel_infer:
  "infer_threshold_value (grid_src [[v]]) t =
     Inr (t * (if v \<le> 1 then 1 else if v \<le> 110 then 100 else if v \<le> 11000 then 10000 else 1),
          (if v \<le> 1 then 1 else if v \<le> 110 then 100 else if v \<le> 11000 then 10000 else 1), v)"
  by (simp add: infer_threshold_value_def grid_src_def nodata_src_def read_masked_def
        compressed_def shape0_def shape1_def cell_at_def nanpercentile_def Let_def)

lemma compressed_all_invalid:
  assumes "\<And>r c. row_off w \<le> r \<Longrightarrow> r < row_off w + height w \<Longrightarrow>
                   col_off w \<le> c \<Longrightarrow> c < col_off w + width w \<Longrightarrow> invalid src r c"
  shows "compressed (read_masked src w) = []"
proof -
  have "filter (\<lambda>p. \<not> snd p) (concat (read_masked src w)) = []"
    using assms by (auto simp: read_masked_def filter_empty_conv)
  then show ?thesis by (simp add: compressed_def)
qed

text \<open>
  C3. The scale is chosen by the first bucket that matches, in order: a sampled maximum
  of at most 1 gives scale 1, otherwise at most 110 gives 100, otherwise at most 11000
  gives 10000, otherwise 1; the native threshold is the requested fraction times that
  scale. Sampled maxima 1.0, 1.000001, 110.0, 110.000001, 11000.0, 11000.000001 and 50000
  give the scales 1, 100, 100, 10000, 10000, 1 and 1 (each on a raster of one valid pixel,
  whose percentile is that pixel).
\<close>

theorem scale_buckets_first_match:
  assumes "infer_threshold_value src t = Inr (thr, s, m)"
  shows "s = (if m \<le> 1.0 then 1 else if m \<le> 110.0 then 100
              else if m \<le> 11000.0 then 10000 else 1) \<and>
         thr = t * s \<and>
         infer_threshold_value (grid_src [[1.0]]) t = Inr (t * 1, 1, 1.0) \<and>
         infer_threshold_value (grid_src [[1.000001]]) t = Inr (t * 100, 100, 1.000001) \<and>
         infer_threshold_value (grid_src [[110.0]]) t = Inr (t * 100, 100, 110.0) \<and>
         infer_threshold_value (grid_src [[110.000001]]) t = Inr (t * 10000, 10000, 110.000001) \<and>
         infer_threshold_value (grid_src [[11000.0]]) t = Inr (t * 10000, 10000, 11000.0) \<and>
         infer_threshold_value (grid_src [[11000.000001]]) t = Inr (t * 1, 1, 11000.000001) \<and>
         infer_threshold_value (grid_src [[50000]]) t = Inr (t * 1, 1, 50000)"
proof -
  have general: "s = (if m \<le> 1.0 then 1 else if m \<le> 110.0 then 100
                      else if m \<le> 11000.0 then 10000 else 1) \<and> thr = t * s"
    using assms
    by (cases "block_windows src") (auto simp: infer_threshold_value_def Let_def)
  show ?thesis
    using general by (simp add: one_pixel_infer)
qed

theorem scale_buckets_first_match_witness:
  "infer_threshold_value (grid_src [[50]]) 0.4 = Inr (40, 100, 50) \<and>
   infer_threshold_value (grid_src [[110.000001]]) 0.4 = Inr (0.4 * 10000, 10000, 110.000001)"
proof -
  have h: "infer_threshold_value (grid_src [[50]]) 0.4 = Inr (40, 100, 50)"
    by (simp add: one_pixel_infer)
  from scale_buckets_first_match [OF h]
  have "infer_threshold_value (grid_src [[110.000001]]) 0.4 = Inr (0.4 * 10000, 10000, 110.000001)"
    by (elim conjE)
  with h show ?thesis by (rule conjI)
qed

text \<open>
  C5. A source whose block enumeration is empty makes the scale estimation raise the
  \<open>RuntimeError\<close> "No windows found in the raster." (the spec's EmptySourceError), and
  the run ends with that error and the files it found: no output raster is created.
\<close>

theorem empty_source_fails:
  assumes "readable wld (tif a) = Some src"
    and "block_windows src = []"
  shows "infer_threshold_value src (threshold a) =
           Inl (RuntimeError ''No windows found in the raster.'') \<and>
         main wld a = (Inl (RuntimeError ''No windows found in the raster.''), wld)"
  using assms by (simp add: infer_threshold_value_def main_def)

theorem empty_source_fails_witness:
  "readable (one_file (nodata_src [] [] [])) (tif (cli 0.4 0)) = Some (nodata_src [] [] []) \<and>
   block_windows (nodata_src [] [] []) = [] \<and>
   main (one_file (nodata_src [] [] [])) (cli 0.4 0) =
     (Inl (RuntimeError ''No windows found in the raster.''), one_file (nodata_src [] [] [])) \<and>
   written (one_file (nodata_src [] [] [])) = Map.empty"
proof -
  have r: "readable (one_file (nodata_src [] [] [])) (tif (cli 0.4 0)) = Some (nodata_src [] [] [])"
    by (rule example_readable)
  have b: "block_windows (nodata_src [] [] []) = []"
    by (simp add: nodata_src_def)
  show ?thesis
    using r b empty_source_fails [OF r b] by (simp add: one_file_def)
qed

text \<open>
  C9. When every pixel of the sampled block is flagged no-data, the sampled maximum is
  1.0, the scale is 1 and the native threshold is the requested fraction unchanged.
\<close>

theorem no_valid_sample_keeps_fraction:
  assumes "block_windows src = first_window # rest"
    and "\<And>r c. row_off first_window \<le> r \<Longrightarrow> r < row_off first_window + height first_window \<Longrightarrow>
                 col_off first_window \<le> c \<Longrightarrow> c < col_off first_window + width first_window \<Longrightarrow>
                 invalid src r c"
  shows "infer_threshold_value src t = Inr (t, 1, 1)"
  using assms(1) compressed_all_invalid [of first_window src, OF assms(2)]
  by (simp add: infer_threshold_value_def)

theorem no_valid_sample_keeps_fraction_witness:
  "block_windows (nodata_src [[7, 9]] [(0, 0), (0, 1)]
      [\<lparr>col_off = 0, row_off = 0, width = 2, height = 1\<rparr>]) =
     \<lparr>col_off = 0, row_off = 0, width = 2, height = 1\<rparr> # [] \<and>
   invalid (nodata_src [[7, 9]] [(0, 0), (0, 1)]
      [\<lparr>col_off = 0, row_off = 0, width = 2, height = 1\<rparr>]) 0 0 \<and>
   invalid (nodata_src [[7, 9]] [(0, 0), (0, 1)]
      [\<lparr>col_off = 0, row_off = 0, width = 2, height = 1\<rparr>]) 0 1 \<and>
   infer_threshold_value (nodata_src [[7, 9]] [(0, 0), (0, 1)]
      [\<lparr>col_off = 0, row_off = 0, width = 2, height = 1\<rparr>]) 0.4 = Inr (0.4, 1, 1)"
proof -
  let ?w = "\<lparr>col_off = 0, row_off = 0, width = 2, height = 1\<rparr>"
  let ?src = "nodata_src [[7, 9]] [(0, 0), (0, 1)] [?w]"
  have b: "block_windows ?src = ?w # []"
    by (simp add: nodata_src_def)
  have i: "invalid ?src r c"
    if "row_off ?w \<le> r" "r < row_off ?w + height ?w" "col_off ?w \<le> c" "c < col_off ?w + width ?w"
    for r c
  proof -
    have "r = 0" and "c = 0 \<or> c = 1" using that by auto
    then show ?thesis by (auto simp: nodata_src_def)
  qed
  show ?thesis
    by (intro conjI)
       (rule b, rule i, simp, simp, simp, simp, rule i, simp, simp, simp, simp,
        rule no_valid_sample_keeps_fraction [of ?src ?w "[]" "0.4", OF b i])
qed

section \<open>Blocks under downsampling\<close>

lemma shape0_ge_mask: "shape0 (ge_mask r d thr) = shape0 d"
  by (simp add: shape0_def ge_mask_def)

lemma shape1_ge_mask: "shape1 (ge_mask r d thr) = shape1 d"
  by (cases d) (simp_all add: shape1_def ge_mask_def)

lemma shape0_read_out_shape: "0 \<le> oh \<Longrightarrow> shape0 (read_out_shape src w oh ow) = oh"
  by (simp add: shape0_def read_out_shape_def)

lemma shape1_read_out_shape:
  assumes "0 < oh" and "0 \<le> ow"
  shows "shape1 (read_out_shape src w oh ow) = ow"
proof -
  have "[0..oh - 1] = 0 # [1..oh - 1]"
    using assms(1) by (simp add: upto_rec1)
  then show ?thesis
    using assms(2) by (simp add: shape1_def read_out_shape_def)
qed

lemma process_block_downsampled:
  assumes "1 < ov" and "0 \<le> height w" and "0 \<le> width w"
  shows "process_block src ov thr w =
           (if height w div ov = 0 \<or> width w div ov = 0 then None
            else Some (\<lparr>col_off = col_off w div ov, row_off = row_off w div ov,
                        width = width w div ov, height = height w div ov\<rparr>,
                       ge_mask (as_dtype src) (read_out_shape src w (height w div ov) (width w div ov)) thr))"
proof -
  have nn: "0 \<le> height w div ov" "0 \<le> width w div ov"
    using assms by (simp_all add: pos_imp_zdiv_nonneg_iff)
  show ?thesis
  proof (cases "height w div ov = 0 \<or> width w div ov = 0")
    case True
    then show ?thesis
      using assms(1) by (auto simp: process_block_def Let_def)
  next
    case False
    then have pos: "0 < height w div ov" "0 < width w div ov"
      using nn by auto
    then show ?thesis
      using assms(1) False
      by (simp add: process_block_def Let_def shape0_ge_mask shape1_ge_mask
            shape0_read_out_shape shape1_read_out_shape)
  qed
qed

lemma example_block_half:
  "ge_mask (as_dtype (grid_src example_rows)) (read_out_shape (grid_src example_rows)
              \<lparr>col_off = 0, row_off = 0, width = 4, height = 4\<rparr> 2 2) 40 =
     [[0, 1], [1, 1]]"
  by (simp add: read_out_shape_def ge_mask_def convert_exact grid_src_def nodata_src_def
        example_rows_def cell_at_def upto_rec1)

text \<open>
  C7. With a downsample factor above 1 and a block window \<open>w\<close> of non-negative size,
  the target shape is \<open>(height w div factor, width w div factor)\<close>. If one of the two
  is 0 the block is skipped and the loop writes nothing for it; otherwise the read has
  that many rows, and the mask is written at the window with offsets
  \<open>row_off w div factor\<close> and \<open>col_off w div factor\<close> and the target shape.
\<close>

theorem downsampled_block_plan:
  assumes "1 < ov" and "0 \<le> height w" and "0 \<le> width w"
  shows "process_block src ov thr w =
           (if height w div ov = 0 \<or> width w div ov = 0 then None
            else Some (\<lparr>col_off = col_off w div ov, row_off = row_off w div ov,
                        width = width w div ov, height = height w div ov\<rparr>,
                       ge_mask (as_dtype src) (read_out_shape src w (height w div ov) (width w div ov)) thr)) \<and>
         shape0 (read_out_shape src w (height w div ov) (width w div ov)) = height w div ov \<and>
         dst_writes (write_blocks src ov thr (w # ws) dst) =
           dst_writes dst @
           (if height w div ov = 0 \<or> width w div ov = 0 then []
            else [(\<lparr>col_off = col_off w div ov, row_off = row_off w div ov,
                    width = width w div ov, height = height w div ov\<rparr>,
                   ge_mask (as_dtype src) (read_out_shape src w (height w div ov) (width w div ov)) thr)]) @
           List.map_filter (process_block src ov thr) ws"
proof -
  have "0 \<le> height w div ov"
    using assms by (simp add: pos_imp_zdiv_nonneg_iff)
  then show ?thesis
    by (simp add: process_block_downsampled [OF assms] write_blocks_writes
          shape0_read_out_shape dst_write_def)
qed

theorem downsampled_block_plan_witness:
  "(1::int) < 2 \<and>
   0 \<le> height \<lparr>col_off = 0, row_off = 0, width = 4, height = 4\<rparr> \<and>
   0 \<le> width \<lparr>col_off = 0, row_off = 0, width = 4, height = 4\<rparr> \<and>
   process_block (grid_src example_rows) 2 40
       \<lparr>col_off = 0, row_off = 0, width = 4, height = 4\<rparr> =
     Some (\<lparr>col_off = 0, row_off = 0, width = 2, height = 2\<rparr>, [[0, 1], [1, 1]]) \<and>
   0 \<le> height \<lparr>col_off = 0, row_off = 4, width = 4, height = 1\<rparr> \<and>
   0 \<le> width \<lparr>col_off = 0, row_off = 4, width = 4, height = 1\<rparr> \<and>
   process_block (grid_src example_rows) 2 40
       \<lparr>col_off = 0, row_off = 4, width = 4, height = 1\<rparr> = None"
proof -
  let ?w = "\<lparr>col_off = 0, row_off = 0, width = 4, height = 4\<rparr>"
  let ?e = "\<lparr>col_off = 0, row_off = 4, width = 4, height = 1\<rparr>"
  have ov: "(1::int) < 2" by simp
  have hw: "0 \<le> height ?w" "0 \<le> width ?w" by simp_all
  have he: "0 \<le> height ?e" "0 \<le> width ?e" by simp_all
  have full: "process_block (grid_src example_rows) 2 40 ?w =
                Some (\<lparr>col_off = 0, row_off = 0, width = 2, height = 2\<rparr>, [[0, 1], [1, 1]])"
    using downsampled_block_plan [OF ov hw, of "grid_src example_rows" 40 "[]"
            "\<lparr>dst_profile = out_profile (grid_src example_rows) 2, dst_writes = []\<rparr>"]
    by (simp add: example_block_half)
  have skip: "process_block (grid_src example_rows) 2 40 ?e = None"
    using downsampled_block_plan [OF ov he, of "grid_src example_rows" 40 "[]"
            "\<lparr>dst_profile = out_profile (grid_src example_rows) 2, dst_writes = []\<rparr>"]
    by simp
  show ?thesis
    using ov hw he full skip by blast
qed

section \<open>Runs without downsampling\<close>

lemma process_block_full:
  "ov \<le> 1 \<Longrightarrow> process_block src ov thr w = Some (w, ge_mask (as_dtype src) (read_window src w) thr)"
  by (simp add: process_block_def)

lemma map_filter_full:
  "ov \<le> 1 \<Longrightarrow> List.map_filter (process_block src ov thr) ws =
     map (\<lambda>w. (w, ge_mask (as_dtype src) (read_window src w) thr)) ws"
  by (induction ws) (simp_all add: process_block_full)

lemma write_blocks_full:
  assumes "ov \<le> 1"
  shows "write_blocks src ov thr ws dst =
           dst\<lparr>dst_writes := dst_writes dst @ map (\<lambda>w. (w, ge_mask (as_dtype src) (read_window src w) thr)) ws\<rparr>"
  using write_blocks_profile [of src ov thr ws dst] write_blocks_writes [of src ov thr ws dst]
  by (simp add: map_filter_full [OF assms])

lemma out_profile_full:
  "ov \<le> 1 \<Longrightarrow> out_profile src ov =
     (src_profile src)\<lparr>prof_dtype := ''uint8'', prof_count := 1, prof_nodata := Some 0,
                       prof_tiled := True, prof_compress := Some ''LZW''\<rparr>"
  by (simp add: out_profile_def)

text \<open>
  C10. Every downsample factor of at most 1 (the default 0, 1, and the negative integers
  that the command line accepts) means no downsampling: the output profile keeps the
  source's height, width and transform, each block is read at full resolution and its
  mask is written at the block's own window, and the whole run is the run with factor 0.
\<close>

theorem factor_at_most_one_is_full_resolution:
  assumes "ov \<le> 1"
  shows "prof_height (out_profile src ov) = prof_height (src_profile src) \<and>
         prof_width (out_profile src ov) = prof_width (src_profile src) \<and>
         prof_transform (out_profile src ov) = prof_transform (src_profile src) \<and>
         process_block src ov thr w = Some (w, ge_mask (as_dtype src) (read_window src w) thr) \<and>
         write_blocks src ov thr ws dst =
           dst\<lparr>dst_writes := dst_writes dst @
                                map (\<lambda>w. (w, ge_mask (as_dtype src) (read_window src w) thr)) ws\<rparr> \<and>
         main wld (a\<lparr>overview := ov\<rparr>) = main wld (a\<lparr>overview := 0\<rparr>)"
proof -
  have m: "main wld (a\<lparr>overview := ov\<rparr>) = main wld (a\<lparr>overview := 0\<rparr>)"
    by (auto simp: main_def write_blocks_full [OF assms] write_blocks_full [of 0]
          out_profile_full [OF assms] out_profile_full [of 0]
          split: option.splits sum.splits)
  show ?thesis
    using m
    by (simp add: out_profile_full [OF assms] process_block_full [OF assms]
          write_blocks_full [OF assms])
qed

theorem factor_at_most_one_is_full_resolution_witness:
  "(- 3::int) \<le> 1 \<and>
   process_block (grid_src example_rows) (- 3) 40
       \<lparr>col_off = 0, row_off = 0, width = 4, height = 4\<rparr> =
     Some (\<lparr>col_off = 0, row_off = 0, width = 4, height = 4\<rparr>,
           ge_mask (as_dtype (grid_src example_rows)) (read_window (grid_src example_rows)
                      \<lparr>col_off = 0, row_off = 0, width = 4, height = 4\<rparr>) 40) \<and>
   main (one_file (grid_src example_rows)) ((cli 0.4 2)\<lparr>overview := - 3\<rparr>) =
     main (one_file (grid_src example_rows)) ((cli 0.4 2)\<lparr>overview := 0\<rparr>)"
proof -
  have h: "(- 3::int) \<le> 1" by simp
  show ?thesis
    using h factor_at_most_one_is_full_resolution [OF h] by blast
qed

section \<open>The cells of the output\<close>

lemma ge_mask_cells: "list_all (list_all (\<lambda>c. c = 0 \<or> c = 1)) (ge_mask r d thr)"
  by (auto simp: ge_mask_def list_all_iff)

lemma process_block_is_ge_mask:
  assumes "process_block src ov thr w = Some (dw, m)"
  shows "\<exists>d. m = ge_mask (as_dtype src) d thr"
  using assms by (auto simp: process_block_def Let_def split: if_splits)

lemma list_all_map_filter:
  assumes "\<And>x y. f x = Some y \<Longrightarrow> P y"
  shows "list_all P (List.map_filter f xs)"
  using assms by (induction xs) (auto split: option.splits)

lemma main_success:
  assumes "fst (main wld a) = Inr ()"
  shows "\<exists>src s m. readable wld (tif a) = Some src \<and> 0 < s \<and>
           \<not> bad_block_size (prof_blockxsize (src_profile src)) \<and>
           \<not> bad_block_size (prof_blockysize (src_profile src)) \<and>
           (\<forall>t. infer_threshold_value src t = Inr (t * s, s, m)) \<and>
           (\<forall>t. run_output wld (a\<lparr>threshold := t\<rparr>) =
              Some \<lparr>dst_profile = out_profile src (overview a),
                    dst_writes = List.map_filter (process_block src (overview a) (t * s))
                                   (block_windows src)\<rparr>)"
proof -
  obtain src where src: "readable wld (tif a) = Some src"
    using assms by (cases "readable wld (tif a)") (auto simp: main_def)
  have "block_windows src \<noteq> []"
    using assms src by (auto simp: main_def infer_threshold_value_def)
  then obtain s m where s: "0 < s" "\<And>t. infer_threshold_value src t = Inr (t * s, s, m)"
    using infer_scale by blast
  have opens: "\<not> bad_block_size (prof_blockxsize (src_profile src))"
              "\<not> bad_block_size (prof_blockysize (src_profile src))"
    using assms main_refused [OF src s(2) [of "threshold a"]] by auto
  have "run_output wld (a\<lparr>threshold := t\<rparr>) =
          Some \<lparr>dst_profile = out_profile src (overview a),
                dst_writes = List.map_filter (process_block src (overview a) (t * s))
                               (block_windows src)\<rparr>" for t
    using main_run [of wld "a\<lparr>threshold := t\<rparr>" src "t * s" s m] src s(2) opens
    by (simp add: run_output_def)
  with src s opens show ?thesis by blast
qed

text \<open>
  C8. Whatever the input and the parameters, when a run succeeds the output is declared
  \<open>uint8\<close> and every cell of every mask written to it is 0 or 1.
\<close>

theorem mask_cells_zero_or_one:
  assumes "fst (main wld a) = Inr ()"
    and "run_output wld a = Some dst"
  shows "prof_dtype (dst_profile dst) = ''uint8'' \<and>
         list_all (\<lambda>wm. list_all (list_all (\<lambda>c. c = 0 \<or> c = 1)) (snd wm)) (dst_writes dst)"
proof -
  obtain src s m where
    run: "\<And>t. run_output wld (a\<lparr>threshold := t\<rparr>) =
            Some \<lparr>dst_profile = out_profile src (overview a),
                  dst_writes = List.map_filter (process_block src (overview a) (t * s))
                                 (block_windows src)\<rparr>"
    using main_success [OF assms(1)] by blast
  have dst: "dst = \<lparr>dst_profile = out_profile src (overview a),
                    dst_writes = List.map_filter (process_block src (overview a) (threshold a * s))
                                   (block_windows src)\<rparr>"
    using run [of "threshold a"] assms(2) by simp
  have cells: "list_all (\<lambda>wm. list_all (list_all (\<lambda>c. c = 0 \<or> c = 1)) (snd wm))
                 (List.map_filter (process_block src (overview a) (threshold a * s))
                    (block_windows src))"
  proof (rule list_all_map_filter)
    fix w y
    assume "process_block src (overview a) (threshold a * s) w = Some y"
    then obtain d where "snd y = ge_mask (as_dtype src) d (threshold a * s)"
      using process_block_is_ge_mask [of src "overview a" "threshold a * s" w "fst y" "snd y"]
      by auto
    then show "list_all (list_all (\<lambda>c. c = 0 \<or> c = 1)) (snd y)"
      by (simp add: ge_mask_cells)
  qed
  show ?thesis
    using cells by (simp add: dst out_profile_def Let_def)
qed

theorem mask_cells_zero_or_one_witness:
  "fst (main (one_file (grid_src example_rows)) (cli 0.4 2)) = Inr () \<and>
   run_output (one_file (grid_src example_rows)) (cli 0.4 2) =
     Some \<lparr>dst_profile = out_profile (grid_src example_rows) 2,
           dst_writes = [(\<lparr>col_off = 0, row_off = 0, width = 2, height = 2\<rparr>, [[0, 1], [1, 1]])]\<rparr> \<and>
   prof_dtype (dst_profile \<lparr>dst_profile = out_profile (grid_src example_rows) 2,
           dst_writes = [(\<lparr>col_off = 0, row_off = 0, width = 2, height = 2\<rparr>, [[0, 1], [1, 1]])]\<rparr>) = ''uint8'' \<and>
   list_all (\<lambda>wm. list_all (list_all (\<lambda>c. c = 0 \<or> c = 1)) (snd wm))
     (dst_writes \<lparr>dst_profile = out_profile (grid_src example_rows) 2,
           dst_writes = [(\<lparr>col_off = 0, row_off = 0, width = 2, height = 2\<rparr>, [[0::uint8, 1], [1, 1]])]\<rparr>)"
proof -
  let ?w = "\<lparr>col_off = 0, row_off = 0, width = 4, height = 4\<rparr>"
  have pb: "process_block (grid_src example_rows) 2 40 ?w =
              Some (\<lparr>col_off = 0, row_off = 0, width = 2, height = 2\<rparr>, [[0, 1], [1, 1]])"
    by (simp add: process_block_downsampled example_block_half)
  have ok: "fst (main (one_file (grid_src example_rows)) (cli 0.4 2)) = Inr ()"
    by (rule example_ok)
  have run: "run_output (one_file (grid_src example_rows)) (cli 0.4 2) =
     Some \<lparr>dst_profile = out_profile (grid_src example_rows) 2,
           dst_writes = [(\<lparr>col_off = 0, row_off = 0, width = 2, height = 2\<rparr>, [[0, 1], [1, 1]])]\<rparr>"
    by (simp add: example_run example_blocks pb)
  show ?thesis
    using ok run mask_cells_zero_or_one [OF ok run] by blast
qed

section \<open>No-data pixels\<close>

lemma process_block_ignores_invalid:
  "process_block (src\<lparr>invalid := v\<rparr>) ov thr w = process_block src ov thr w"
  by (simp add: process_block_def read_window_def read_out_shape_def Let_def)

lemma write_blocks_ignores_invalid:
  "write_blocks (src\<lparr>invalid := v\<rparr>) ov thr ws dst = write_blocks src ov thr ws dst"
  by (induction ws arbitrary: dst)
     (auto simp: process_block_ignores_invalid split: option.splits)

lemma one_file_ok:
  assumes "\<And>t. infer_threshold_value src t = Inr (t * s, s, m)"
    and "\<not> bad_block_size (prof_blockxsize (src_profile src))"
    and "\<not> bad_block_size (prof_blockysize (src_profile src))"
  shows "fst (main (one_file src) (cli t ov)) = Inr ()"
  by (simp add: main_run [OF example_readable assms])

lemma one_file_run:
  assumes "\<And>t. infer_threshold_value src t = Inr (t * s, s, m)"
    and "\<not> bad_block_size (prof_blockxsize (src_profile src))"
    and "\<not> bad_block_size (prof_blockysize (src_profile src))"
  shows "run_output (one_file src) (cli t ov) =
           Some \<lparr>dst_profile = out_profile src ov,
                 dst_writes = List.map_filter (process_block src ov (t * s)) (block_windows src)\<rparr>"
  unfolding run_output_def
  by (simp add: main_run [OF example_readable assms]) (simp add: cli_def)

lemma nth_upto0: "0 \<le> i \<Longrightarrow> i < n \<Longrightarrow> [0..n - 1] ! nat i = i"
  by (simp add: nth_upto)

lemma ge_mask_read_window_nth:
  assumes "0 \<le> i" and "i < height w" and "0 \<le> j" and "j < width w"
  shows "ge_mask (as_dtype src) (read_window src w) thr ! nat i ! nat j =
           (if convert (as_dtype src) thr \<le> stored src (row_off w + i) (col_off w + j)
            then 1 else 0)"
  using assms by (simp add: ge_mask_def read_window_def nth_upto0)

text \<open>The sample of a window: row by row, the stored values of the pixels not flagged.\<close>

lemma compressed_read_masked:
  "compressed (read_masked src w) =
     concat (map (\<lambda>i. map (\<lambda>j. stored src (row_off w + i) (col_off w + j))
                         (filter (\<lambda>j. \<not> invalid src (row_off w + i) (col_off w + j))
                                 [0..width w - 1]))
                 [0..height w - 1])"
  by (simp add: compressed_def read_masked_def filter_concat map_concat filter_map comp_def)

lemma sample_ignores_flagged_values:
  "compressed (read_masked
      (src\<lparr>stored := \<lambda>r c. if invalid src r c then g r c else stored src r c\<rparr>) w) =
   compressed (read_masked src w)"
proof -
  have inner: "map (\<lambda>j. if P j then a j else b j) (filter (\<lambda>j. \<not> P j) xs) =
               map b (filter (\<lambda>j. \<not> P j) xs)"
    for P :: "int \<Rightarrow> bool" and a b :: "int \<Rightarrow> real" and xs
    by (induction xs) auto
  show ?thesis
    by (simp add: compressed_read_masked inner)
qed

lemma infer_ignores_flagged_values:
  "infer_threshold_value
     (src\<lparr>stored := \<lambda>r c. if invalid src r c then g r c else stored src r c\<rparr>) t =
   infer_threshold_value src t"
proof (cases "block_windows src")
  case Nil
  then show ?thesis
    by (simp add: infer_threshold_value_def)
next
  case (Cons w ws)
  then show ?thesis
    unfolding infer_threshold_value_def
    by (simp add: sample_ignores_flagged_values [of src g w])
qed

lemma nodata_example_infer:
  "infer_threshold_value
     (nodata_src [[50, 255]] [(0, 1)] [\<lparr>col_off = 0, row_off = 0, width = 2, height = 1\<rparr>]) t =
   Inr (t * 100, 100, 50)"
  by (simp add: infer_threshold_value_def nodata_src_def read_masked_def compressed_def
        cell_at_def nanpercentile_def upto_rec1 Let_def)

lemma nodata_example_block:
  "process_block
     (nodata_src [[50, 255]] [(0, 1)] [\<lparr>col_off = 0, row_off = 0, width = 2, height = 1\<rparr>])
     0 40 \<lparr>col_off = 0, row_off = 0, width = 2, height = 1\<rparr> =
   Some (\<lparr>col_off = 0, row_off = 0, width = 2, height = 1\<rparr>, [[1, 1]])"
  by (simp add: process_block_def read_window_def ge_mask_def convert_exact nodata_src_def
        cell_at_def upto_rec1)

text \<open>
  C1, as stated, says that a pixel flagged no-data never yields a 1 in the output. The
  loop reads each block without the mask and compares the stored values, so it does: in
  the source of one block with the stored row 50 255, whose second pixel is flagged
  no-data, the sample is the single valid value 50, the scale is 100, the native
  threshold for the fraction 0.4 is 40, and the mask written is 1 1.
\<close>

theorem nodata_pixel_flagged_one_counterexample:
  "invalid (nodata_src [[50, 255]] [(0, 1)]
              [\<lparr>col_off = 0, row_off = 0, width = 2, height = 1\<rparr>]) 0 1 \<and>
   infer_threshold_value
     (nodata_src [[50, 255]] [(0, 1)] [\<lparr>col_off = 0, row_off = 0, width = 2, height = 1\<rparr>])
     0.4 = Inr (40, 100, 50) \<and>
   fst (main (one_file (nodata_src [[50, 255]] [(0, 1)]
                [\<lparr>col_off = 0, row_off = 0, width = 2, height = 1\<rparr>])) (cli 0.4 0)) = Inr () \<and>
   map_option dst_writes
     (run_output (one_file (nodata_src [[50, 255]] [(0, 1)]
                    [\<lparr>col_off = 0, row_off = 0, width = 2, height = 1\<rparr>])) (cli 0.4 0)) =
     Some [(\<lparr>col_off = 0, row_off = 0, width = 2, height = 1\<rparr>, [[1, 1]])]"
proof -
  let ?w = "\<lparr>col_off = 0, row_off = 0, width = 2, height = 1\<rparr>"
  let ?src = "nodata_src [[50, 255]] [(0, 1)] [?w]"
  have blocks: "block_windows ?src = [?w]"
    by (simp add: nodata_src_def)
  have inv: "invalid ?src 0 1"
    by (simp add: nodata_src_def)
  have writes: "map_option dst_writes (run_output (one_file ?src) (cli 0.4 0)) =
                  Some [(?w, [[1, 1]])]"
    by (simp add: one_file_run [OF nodata_example_infer tiled16_opens(1,2)] blocks
          nodata_example_block)
  have ok: "fst (main (one_file ?src) (cli 0.4 0)) = Inr ()"
    by (rule one_file_ok [OF nodata_example_infer tiled16_opens(1,2)])
  have inf: "infer_threshold_value ?src 0.4 = Inr (40, 100, 50)"
    by (simp add: nodata_example_infer)
  show ?thesis
    using inv inf ok writes by blast
qed

text \<open>
  C1, amended. The validity mask is honoured in the scale estimation only: whatever
  values are stored at the flagged pixels, \<open>infer_threshold_value\<close> returns the same
  sampled maximum, scale and native threshold. The block loop does not consult the mask:
  whichever pixels are flagged, a block contributes the same and the loop writes the
  same, so a flagged pixel is thresholded on its stored value like any other. Without
  downsampling the cell written for a pixel of the block, flagged or not, is 1 exactly
  when its stored value is at least the native threshold as converted to the dtype of the
  band.
\<close>

theorem nodata_excluded_from_sample_only:
  assumes "ov \<le> 1" and "0 \<le> i" and "i < height w" and "0 \<le> j" and "j < width w"
  shows "infer_threshold_value
           (src\<lparr>stored := \<lambda>r c. if invalid src r c then g r c else stored src r c\<rparr>) t =
           infer_threshold_value src t \<and>
         process_block (src\<lparr>invalid := v\<rparr>) ov' thr w = process_block src ov' thr w \<and>
         write_blocks (src\<lparr>invalid := v\<rparr>) ov' thr ws dst = write_blocks src ov' thr ws dst \<and>
         (\<exists>m. process_block src ov thr w = Some (w, m) \<and>
              m ! nat i ! nat j =
                (if convert (as_dtype src) thr \<le> stored src (row_off w + i) (col_off w + j)
                 then 1 else 0))"
  using assms
  by (simp add: infer_ignores_flagged_values process_block_ignores_invalid
        write_blocks_ignores_invalid process_block_full ge_mask_read_window_nth)

theorem nodata_excluded_from_sample_only_witness:
  "(0::int) \<le> 1 \<and> (0::int) \<le> 0 \<and>
   (0::int) < height \<lparr>col_off = 0, row_off = 0, width = 2, height = 1\<rparr> \<and>
   (1::int) < width \<lparr>col_off = 0, row_off = 0, width = 2, height = 1\<rparr> \<and>
   invalid (nodata_src [[50, 255]] [(0, 1)]
              [\<lparr>col_off = 0, row_off = 0, width = 2, height = 1\<rparr>]) 0 1 \<and>
   infer_threshold_value
     ((nodata_src [[50, 255]] [(0, 1)] [\<lparr>col_off = 0, row_off = 0, width = 2, height = 1\<rparr>])
        \<lparr>stored := \<lambda>r c. if invalid (nodata_src [[50, 255]] [(0, 1)]
                                      [\<lparr>col_off = 0, row_off = 0, width = 2, height = 1\<rparr>]) r c
                         then 7 else stored (nodata_src [[50, 255]] [(0, 1)]
                                      [\<lparr>col_off = 0, row_off = 0, width = 2, height = 1\<rparr>]) r c\<rparr>)
     0.4 = Inr (40, 100, 50) \<and>
   (\<exists>m. process_block
           (nodata_src [[50, 255]] [(0, 1)] [\<lparr>col_off = 0, row_off = 0, width = 2, height = 1\<rparr>])
           0 40 \<lparr>col_off = 0, row_off = 0, width = 2, height = 1\<rparr> =
         Some (\<lparr>col_off = 0, row_off = 0, width = 2, height = 1\<rparr>, m) \<and>
         m ! nat 0 ! nat 1 = 1)"
proof -
  let ?w = "\<lparr>col_off = 0, row_off = 0, width = 2, height = 1\<rparr>"
  let ?src = "nodata_src [[50, 255]] [(0, 1)] [?w]"
  have a: "(0::int) \<le> 1" "(0::int) \<le> 0" "(0::int) < height ?w" "(1::int) < width ?w"
    by simp_all
  have inv: "invalid ?src 0 1"
    by (simp add: nodata_src_def)
  have st: "convert (as_dtype ?src) 40 \<le> stored ?src (row_off ?w + 0) (col_off ?w + 1)"
    by (simp add: nodata_src_def cell_at_def convert_exact)
  have inf: "infer_threshold_value ?src 0.4 = Inr (40, 100, 50)"
    by (simp add: nodata_example_infer)
  note inst = nodata_excluded_from_sample_only
               [OF a(1) a(2) a(3) a(1) a(4), of ?src "\<lambda>r c. 7" "0.4" "invalid ?src" 0 40 "[]"
                  "\<lparr>dst_profile = out_profile ?src 0, dst_writes = []\<rparr>"]
  from inst have same: "infer_threshold_value
      (?src\<lparr>stored := \<lambda>r c. if invalid ?src r c then 7 else stored ?src r c\<rparr>) 0.4 =
      infer_threshold_value ?src 0.4"
    by blast
  from inst obtain m where m: "process_block ?src 0 40 ?w = Some (?w, m)"
      "m ! nat 0 ! nat 1 =
         (if convert (as_dtype ?src) 40 \<le> stored ?src (row_off ?w + 0) (col_off ?w + 1)
          then 1 else 0)"
    by blast
  have "m ! nat 0 ! nat 1 = 1"
    unfolding m(2) using st by simp
  with m(1) have cell: "\<exists>m. process_block ?src 0 40 ?w = Some (?w, m) \<and> m ! nat 0 ! nat 1 = 1"
    by blast
  have est: "infer_threshold_value
      (?src\<lparr>stored := \<lambda>r c. if invalid ?src r c then 7 else stored ?src r c\<rparr>) 0.4 =
      Inr (40, 100, 50)"
    unfolding same by (rule inf)
  show ?thesis
    using a inv est cell by blast
qed

section \<open>Monotonicity in the requested fraction\<close>

lemma length_filter_mono:
  assumes "\<And>x. P x \<Longrightarrow> Q x"
  shows "length (filter P xs) \<le> length (filter Q xs)"
  using assms by (induction xs) auto

lemma convert_mono: "t1 \<le> t2 \<Longrightarrow> convert r t1 \<le> convert r t2"
  using convert [of r] by (simp add: mono_def)

lemma count_ones_ge_mask:
  "count_ones (ge_mask r d thr) = length (filter (\<lambda>v. convert r thr \<le> v) (concat d))"
proof -
  have "concat (ge_mask r d thr) =
          map (\<lambda>v. if convert r thr \<le> v then 1 else 0) (concat d)"
    by (simp add: ge_mask_def map_concat)
  moreover have "(\<lambda>v. (if convert r thr \<le> v then 1 else (0::uint8)) = 1) =
                 (\<lambda>v. convert r thr \<le> v)"
    by auto
  ultimately show ?thesis
    by (simp add: count_ones_def filter_map comp_def)
qed

lemma count_ones_mono:
  "t1 \<le> t2 \<Longrightarrow> count_ones (ge_mask r d t2) \<le> count_ones (ge_mask r d t1)"
  unfolding count_ones_ge_mask
  using convert_mono [of t1 t2 r] by (intro length_filter_mono) simp

lemma ge_mask_le:
  "t1 \<le> t2 \<Longrightarrow> mask_le (ge_mask r d t2) (ge_mask r d t1)"
  using convert_mono [of t1 t2 r]
  by (auto simp: mask_le_def ge_mask_def list_all2_map1 list_all2_map2 list_all2_same)

lemma process_block_same_data:
  "rel_option (\<lambda>wm2 wm1. \<exists>w' d. wm2 = (w', ge_mask (as_dtype src) d t2) \<and>
                                 wm1 = (w', ge_mask (as_dtype src) d t1))
     (process_block src ov t2 w) (process_block src ov t1 w)"
  by (auto simp: process_block_def Let_def shape0_ge_mask shape1_ge_mask)

lemma map_filter_rel:
  assumes "\<And>x. rel_option R (f x) (g x)"
  shows "list_all2 R (List.map_filter f xs) (List.map_filter g xs)"
proof (induction xs)
  case Nil
  show ?case by simp
next
  case (Cons x xs)
  show ?case
    using assms [of x] Cons
    by (cases "f x"; cases "g x") simp_all
qed

lemma sum_list_rel_mono:
  assumes "list_all2 (\<lambda>x y. f x \<le> (g y::nat)) xs ys"
  shows "sum_list (map f xs) \<le> sum_list (map g ys)"
  using assms by (induction rule: list_all2_induct) simp_all

text \<open>
  C6. For the same source, hence the same inferred scale, and two requested fractions
  \<open>f1 \<le> f2\<close>: when the run with \<open>f1\<close> succeeds so does the run with \<open>f2\<close>, both
  write the same windows in the same order, every cell of a mask written with \<open>f2\<close>
  is at most the cell written with \<open>f1\<close>, and the run with \<open>f2\<close> writes no more
  1-valued cells.
\<close>

theorem threshold_monotone:
  assumes "f1 \<le> f2"
    and "fst (main wld (a\<lparr>threshold := f1\<rparr>)) = Inr ()"
    and "run_output wld (a\<lparr>threshold := f1\<rparr>) = Some d1"
    and "run_output wld (a\<lparr>threshold := f2\<rparr>) = Some d2"
  shows "fst (main wld (a\<lparr>threshold := f2\<rparr>)) = Inr () \<and>
         list_all2 (\<lambda>wm2 wm1. fst wm2 = fst wm1 \<and> mask_le (snd wm2) (snd wm1))
           (dst_writes d2) (dst_writes d1) \<and>
         total_ones d2 \<le> total_ones d1"
proof -
  let ?a = "a\<lparr>threshold := f1\<rparr>"
  obtain src s m where src: "readable wld (tif ?a) = Some src" and s: "0 < s"
    and opens: "\<not> bad_block_size (prof_blockxsize (src_profile src))"
               "\<not> bad_block_size (prof_blockysize (src_profile src))"
    and inf: "\<And>t. infer_threshold_value src t = Inr (t * s, s, m)"
    and run: "\<And>t. run_output wld (?a\<lparr>threshold := t\<rparr>) =
            Some \<lparr>dst_profile = out_profile src (overview ?a),
                  dst_writes = List.map_filter (process_block src (overview ?a) (t * s))
                                 (block_windows src)\<rparr>"
    using main_success [OF assms(2)] by blast
  have le: "f1 * s \<le> f2 * s"
    using assms(1) s by simp
  have w1: "dst_writes d1 =
              List.map_filter (process_block src (overview a) (f1 * s)) (block_windows src)"
    using run [of f1] assms(3) by auto
  have w2: "dst_writes d2 =
              List.map_filter (process_block src (overview a) (f2 * s)) (block_windows src)"
    using run [of f2] assms(4) by auto
  have rel: "list_all2 (\<lambda>wm2 wm1. \<exists>w' d. wm2 = (w', ge_mask (as_dtype src) d (f2 * s)) \<and>
                                          wm1 = (w', ge_mask (as_dtype src) d (f1 * s)))
               (dst_writes d2) (dst_writes d1)"
    unfolding w1 w2 by (rule map_filter_rel) (rule process_block_same_data)
  have cells: "list_all2 (\<lambda>wm2 wm1. fst wm2 = fst wm1 \<and> mask_le (snd wm2) (snd wm1))
                 (dst_writes d2) (dst_writes d1)"
    using rel by (rule list_all2_mono) (auto simp: ge_mask_le [OF le])
  have "list_all2 (\<lambda>wm2 wm1. count_ones (snd wm2) \<le> count_ones (snd wm1))
          (dst_writes d2) (dst_writes d1)"
    using rel by (rule list_all2_mono) (auto simp: count_ones_mono [OF le])
  then have ones: "total_ones d2 \<le> total_ones d1"
    unfolding total_ones_def by (rule sum_list_rel_mono)
  have ok: "fst (main wld (a\<lparr>threshold := f2\<rparr>)) = Inr ()"
    using main_run [of wld "a\<lparr>threshold := f2\<rparr>" src "f2 * s" s m] src inf opens by simp
  show ?thesis
    using ok cells ones by blast
qed

theorem threshold_monotone_witness:
  "(0.4::real) \<le> 0.7 \<and>
   fst (main (one_file (grid_src example_rows)) ((cli 0 0)\<lparr>threshold := 0.4\<rparr>)) = Inr () \<and>
   map_option dst_writes
     (run_output (one_file (grid_src example_rows)) ((cli 0 0)\<lparr>threshold := 0.4\<rparr>)) =
     Some [(\<lparr>col_off = 0, row_off = 0, width = 4, height = 4\<rparr>,
            [[0, 0, 1, 1], [1, 1, 0, 0], [1, 1, 1, 1], [0, 0, 0, 0]])] \<and>
   map_option dst_writes
     (run_output (one_file (grid_src example_rows)) ((cli 0 0)\<lparr>threshold := 0.7\<rparr>)) =
     Some [(\<lparr>col_off = 0, row_off = 0, width = 4, height = 4\<rparr>,
            [[0, 0, 0, 0], [1, 1, 0, 0], [0, 0, 1, 1], [0, 0, 0, 0]])] \<and>
   map_option total_ones
     (run_output (one_file (grid_src example_rows)) ((cli 0 0)\<lparr>threshold := 0.7\<rparr>)) = Some 4 \<and>
   map_option total_ones
     (run_output (one_file (grid_src example_rows)) ((cli 0 0)\<lparr>threshold := 0.4\<rparr>)) = Some 8 \<and>
   (4::nat) \<le> 8"
proof -
  let ?w = "\<lparr>col_off = 0, row_off = 0, width = 4, height = 4\<rparr>"
  let ?p = "out_profile (grid_src example_rows) 0"
  let ?d1 = "\<lparr>dst_profile = ?p,
             dst_writes = [(?w, [[0, 0, 1, 1], [1, 1, 0, 0], [1, 1, 1, 1], [0, 0, 0, 0::uint8]])]\<rparr>"
  let ?d2 = "\<lparr>dst_profile = ?p,
             dst_writes = [(?w, [[0, 0, 0, 0], [1, 1, 0, 0], [0, 0, 1, 1], [0, 0, 0, 0::uint8]])]\<rparr>"
  have a: "(cli 0 0)\<lparr>threshold := t\<rparr> = cli t 0" for t
    by (simp add: cli_def)
  have le: "(0.4::real) \<le> 0.7" by simp
  have ok: "fst (main (one_file (grid_src example_rows)) ((cli 0 0)\<lparr>threshold := 0.4\<rparr>)) = Inr ()"
    unfolding a by (rule example_ok)
  have b2: "process_block (grid_src example_rows) 0 70 ?w =
              Some (?w, [[0, 0, 0, 0], [1, 1, 0, 0], [0, 0, 1, 1], [0, 0, 0, 0]])"
    by (simp add: process_block_def read_window_def ge_mask_def convert_exact grid_src_def
        nodata_src_def example_rows_def cell_at_def upto_rec1)
  have r1: "run_output (one_file (grid_src example_rows)) ((cli 0 0)\<lparr>threshold := 0.4\<rparr>) = Some ?d1"
    unfolding a by (simp add: example_run example_blocks example_block_full)
  have r2: "run_output (one_file (grid_src example_rows)) ((cli 0 0)\<lparr>threshold := 0.7\<rparr>) = Some ?d2"
    unfolding a by (simp add: example_run example_blocks b2)
  have t1: "total_ones ?d1 = 8"
    by (simp add: total_ones_def count_ones_def)
  have t2: "total_ones ?d2 = 4"
    by (simp add: total_ones_def count_ones_def)
  have "total_ones ?d2 \<le> total_ones ?d1"
    using threshold_monotone [OF le ok r1 r2] by blast
  then have n: "(4::nat) \<le> 8"
    unfolding t1 t2 .
  have w1: "map_option dst_writes
     (run_output (one_file (grid_src example_rows)) ((cli 0 0)\<lparr>threshold := 0.4\<rparr>)) =
     Some [(?w, [[0, 0, 1, 1], [1, 1, 0, 0], [1, 1, 1, 1], [0, 0, 0, 0]])]"
    unfolding r1 by simp
  have w2: "map_option dst_writes
     (run_output (one_file (grid_src example_rows)) ((cli 0 0)\<lparr>threshold := 0.7\<rparr>)) =
     Some [(?w, [[0, 0, 0, 0], [1, 1, 0, 0], [0, 0, 1, 1], [0, 0, 0, 0]])]"
    unfolding r2 by simp
  have o1: "map_option total_ones
     (run_output (one_file (grid_src example_rows)) ((cli 0 0)\<lparr>threshold := 0.4\<rparr>)) = Some 8"
    unfolding r1 using t1 by simp
  have o2: "map_option total_ones
     (run_output (one_file (grid_src example_rows)) ((cli 0 0)\<lparr>threshold := 0.7\<rparr>)) = Some 4"
    unfolding r2 using t2 by simp
  show ?thesis
    using le ok w1 w2 o1 o2 n by blast
qed

section \<open>Coverage without downsampling\<close>










end
